theory Spec2Isabelle
  imports Complex_Main "HOL-Library.Sublist"
begin

section \<open>Numbers\<close>

text \<open>
  The matching engine (\<^verbatim>\<open>server/matching.ts\<close>) computes with JavaScript numbers.
  Scores are modelled by exact rationals. Integers and halves of integers of this size are
  exact as doubles; the products with the weights 0.4, 0.15 and 0.05 and the tag ratio
  carry a relative error of about 1e-16. In the concrete inputs used below, every value
  that is rounded or compared with a threshold is either such an exact value or at least
  0.1 away from the rounding point or the threshold, so they behave in the same way under
  both arithmetics.
  \<^verbatim>\<open>Math.round\<close> rounds halves upwards, \<^verbatim>\<open>Math.ceil\<close> is the ceiling.
\<close>

definition Math_round :: "rat \<Rightarrow> int" where
  "Math_round x = \<lfloor>x + 1 / 2\<rfloor>"

definition Math_ceil :: "rat \<Rightarrow> int" where
  "Math_ceil x = \<lceil>x\<rceil>"

text \<open>Decimal rendering of an integer inside a template literal.\<close>

fun digits :: "nat \<Rightarrow> string" where
  "digits n = (if n < 10 then [''0123456789'' ! n]
               else digits (n div 10) @ [''0123456789'' ! (n mod 10)])"

declare digits.simps [simp del]

definition String_of :: "int \<Rightarrow> string" where
  "String_of i = (if i < 0 then ''-'' @ digits (nat (- i)) else digits (nat i))"

section \<open>Data model (\<^verbatim>\<open>drizzle/schema.ts\<close>)\<close>

text \<open>
  The enumerated columns are closed types. The fallbacks that the engine writes for a
  value outside of them (\<^verbatim>\<open>|| 0\<close> for a proficiency, \<^verbatim>\<open>|| 1\<close> for a stage,
  \<^verbatim>\<open>|| 0\<close> for the user-type bonus) are never taken for a row of the schema.
\<close>

datatype userType = Founder | Freelancer | Investor | Collaborator

datatype proficiency = Beginner | Intermediate | Advanced | Expert

datatype stage = Idea | Prototype | Running | Scaling

datatype status = Draft | Active | Paused | Completed | Archived

datatype matchType = Skill_based | Investment_based | Stage_based | Interest_based

record User =
  user_id :: int
  user_userType :: userType
  user_level :: int
  user_projectsCreated :: int
  user_collaborations :: int
  user_investments :: int
  user_earnings :: rat
  user_interests :: "string list"

record Project =
  project_id :: int
  project_ownerId :: int
  project_stage :: stage
  project_status :: status
  project_totalInvestmentNeeded :: "rat option"
  project_seekingInvestment :: bool
  project_seekingTeam :: bool
  project_openForCollaboration :: bool
  project_tags :: "string list"

record UserSkill =
  us_userId :: int
  us_skillId :: int
  us_proficiency :: proficiency
  us_yearsOfExperience :: int

record TeamRequirement =
  tr_projectId :: int
  tr_skillId :: int
  tr_minProficiency :: proficiency
  tr_minYearsExperience :: int
  tr_filled :: int
  tr_count :: int

text \<open>
  The value \<^verbatim>\<open>getDb()\<close> resolves to is a handle or \<^verbatim>\<open>null\<close>; it is passed
  as a \<open>Database option\<close>. A table is the list of its rows in the order the store returns
  them; \<open>None\<close> for a table stands for a query on it that rejects, which the
  \<^verbatim>\<open>try/catch\<close> blocks of the engine handle.
\<close>

record Database =
  tbl_users :: "User list option"
  tbl_projects :: "Project list option"
  tbl_userSkills :: "UserSkill list option"
  tbl_projectTeamRequirements :: "TeamRequirement list option"

definition select_userSkills :: "Database \<Rightarrow> int \<Rightarrow> UserSkill list option" where
  "select_userSkills d uid = map_option (filter (\<lambda>s. us_userId s = uid)) (tbl_userSkills d)"

definition select_teamReqs :: "Database \<Rightarrow> int \<Rightarrow> TeamRequirement list option" where
  "select_teamReqs d pid =
     map_option (filter (\<lambda>r. tr_projectId r = pid)) (tbl_projectTeamRequirements d)"

definition select_user :: "Database \<Rightarrow> int \<Rightarrow> User list option" where
  "select_user d uid = map_option (\<lambda>rows. take 1 (filter (\<lambda>u. user_id u = uid) rows)) (tbl_users d)"

definition select_activeProjects :: "Database \<Rightarrow> Project list option" where
  "select_activeProjects d =
     map_option (\<lambda>rows. take 100 (filter (\<lambda>p. project_status p = Active \<and> project_seekingTeam p) rows))
       (tbl_projects d)"

text \<open>What a calculator returns: \<^verbatim>\<open>{ score, details }\<close>.\<close>

record Scored =
  score :: rat
  details :: "string \<rightharpoonup> rat"

record MatchScore =
  userId :: int
  projectId :: int
  totalScore :: int
  skillScore :: int
  investmentScore :: int
  stageScore :: int
  interestScore :: int
  engagementScore :: int
  scoreDetails :: "string \<rightharpoonup> rat"
  matchType :: matchType
  recommendation :: string

section \<open>Skill matching\<close>

fun proficiencyLevels :: "proficiency \<Rightarrow> int" where
  "proficiencyLevels Beginner = 1"
| "proficiencyLevels Intermediate = 2"
| "proficiencyLevels Advanced = 3"
| "proficiencyLevels Expert = 4"

text \<open>The two additions to \<^verbatim>\<open>skillScore\<close> in the loop body.\<close>

definition proficiencyPoints :: "int \<Rightarrow> int \<Rightarrow> rat" where
  "proficiencyPoints userProf reqProf =
     (if userProf \<ge> reqProf then 30 + of_int (userProf - reqProf) * 10
      else max 0 (20 - of_int (reqProf - userProf) * 10))"

definition experiencePoints :: "int \<Rightarrow> int \<Rightarrow> rat" where
  "experiencePoints years minYears =
     (if years \<ge> minYears then 30 + min 10 (of_int (years - minYears) / 2)
      else max 0 (15 - of_int (minYears - years) * 5))"

fun skillLoop ::
  "UserSkill list \<Rightarrow> TeamRequirement list \<Rightarrow> rat \<times> nat \<times> (string \<rightharpoonup> rat)
     \<Rightarrow> rat \<times> nat \<times> (string \<rightharpoonup> rat)" where
  "skillLoop userSkillsData [] acc = acc"
| "skillLoop userSkillsData (req # reqs) (sumScore, matchedSkills, dets) =
     (case find (\<lambda>s. us_skillId s = tr_skillId req) userSkillsData of
        None \<Rightarrow> skillLoop userSkillsData reqs (sumScore, matchedSkills, dets)
      | Some userSkill \<Rightarrow>
          (let userProf = proficiencyLevels (us_proficiency userSkill);
               reqProf = proficiencyLevels (tr_minProficiency req);
               points = proficiencyPoints userProf reqProf
                 + experiencePoints (us_yearsOfExperience userSkill) (tr_minYearsExperience req)
           in skillLoop userSkillsData reqs
                (sumScore + points, matchedSkills + 1,
                 dets(''skill_'' @ String_of (tr_skillId req) \<mapsto> points))))"

definition calculateSkillScore :: "User \<Rightarrow> Project \<Rightarrow> Database option \<Rightarrow> Scored" where
  "calculateSkillScore user project db =
     (case db of
        None \<Rightarrow> \<lparr>score = 0, details = Map.empty\<rparr>
      | Some d \<Rightarrow>
          (case select_userSkills d (user_id user) of
             None \<Rightarrow> \<lparr>score = 0, details = Map.empty\<rparr>
           | Some userSkillsData \<Rightarrow>
               if length userSkillsData = 0 then \<lparr>score = 0, details = Map.empty\<rparr>
               else
                 (case select_teamReqs d (project_id project) of
                    None \<Rightarrow> \<lparr>score = 0, details = Map.empty\<rparr>
                  | Some teamReqs \<Rightarrow>
                      if length teamReqs = 0
                      then \<lparr>score = 50, details = [''noRequirements'' \<mapsto> 50]\<rparr>
                      else
                        (case skillLoop userSkillsData teamReqs (0, 0, Map.empty) of
                           (sumScore, matchedSkills, dets) \<Rightarrow>
                             (let avgScore = (if matchedSkills > 0
                                              then sumScore / of_nat matchedSkills else 0);
                                  matchPercentage =
                                    of_nat matchedSkills / of_nat (length teamReqs) * 100;
                                  coverageBonus = (if matchPercentage > 70 then 10
                                                   else if matchPercentage > 40 then 5 else 0);
                                  finalScore = min 100 (avgScore + coverageBonus)
                              in \<lparr>score = finalScore,
                                  details = dets(''coverage'' \<mapsto> matchPercentage,
                                                 ''final'' \<mapsto> finalScore)\<rparr>)))))"

section \<open>Investment matching\<close>

fun stage_name :: "stage \<Rightarrow> string" where
  "stage_name Idea = ''idea''"
| "stage_name Prototype = ''prototype''"
| "stage_name Running = ''running''"
| "stage_name Scaling = ''scaling''"

text \<open>
  \<^verbatim>\<open>totalInvestmentNeeded\<close> is a nullable decimal column, read as a string or
  \<^verbatim>\<open>null\<close>; a decimal string is never empty, so it is truthy exactly when present.
\<close>

definition calculateInvestmentScore :: "User \<Rightarrow> Project \<Rightarrow> Scored" where
  "calculateInvestmentScore user project =
     (if user_userType user \<noteq> Investor then \<lparr>score = 0, details = [''notInvestor'' \<mapsto> 0]\<rparr>
      else if \<not> project_seekingInvestment project
      then \<lparr>score = 0, details = [''notSeeking'' \<mapsto> 0]\<rparr>
      else
        (let (score1, details1) =
               (case project_totalInvestmentNeeded project of
                  None \<Rightarrow> (50, Map.empty)
                | Some investmentNeeded \<Rightarrow>
                    (let userInvestmentCapacity = user_earnings user * 2
                     in if userInvestmentCapacity \<ge> investmentNeeded
                        then (50 + 30, [''fundingCapacity'' \<mapsto> 30])
                        else if userInvestmentCapacity \<ge> investmentNeeded * (1 / 2)
                        then (50 + 20, [''fundingCapacity'' \<mapsto> 20])
                        else if userInvestmentCapacity \<ge> investmentNeeded * (1 / 5)
                        then (50 + 10, [''fundingCapacity'' \<mapsto> 10])
                        else (50, Map.empty)));
             stagePreference =
               (if ''stage_'' @ stage_name (project_stage project) \<in> set (user_interests user)
                then 10 else 0);
             score2 = score1 + stagePreference;
             details2 = details1(''stagePreference'' \<mapsto> stagePreference);
             (score3, details3) =
               (if user_investments user > 0
                then (let experienceBonus = of_int (min 10 (user_investments user))
                      in (score2 + experienceBonus, details2(''experience'' \<mapsto> experienceBonus)))
                else (score2, details2))
         in \<lparr>score = min 100 score3, details = details3(''final'' \<mapsto> min 100 score3)\<rparr>))"

section \<open>Stage matching\<close>

fun stageHierarchy :: "stage \<Rightarrow> int" where
  "stageHierarchy Idea = 1"
| "stageHierarchy Prototype = 2"
| "stageHierarchy Running = 3"
| "stageHierarchy Scaling = 4"

definition stageMatch :: "int \<Rightarrow> int \<Rightarrow> int" where
  "stageMatch userLevel projectStageLevel =
     (if userLevel = projectStageLevel then 40
      else if \<bar>userLevel - projectStageLevel\<bar> = 1 then 25
      else if userLevel > projectStageLevel then 15
      else max 5 (20 - \<bar>userLevel - projectStageLevel\<bar> * 5))"

definition calculateStageScore :: "User \<Rightarrow> Project \<Rightarrow> Scored" where
  "calculateStageScore user project =
     (let userLevel = Math_ceil (of_int (user_level user) / 2);
          projectStageLevel = stageHierarchy (project_stage project);
          bonus = of_int (stageMatch userLevel projectStageLevel);
          score1 = 50 + bonus;
          details1 = [''stageMatch'' \<mapsto> bonus];
          (score2, details2) =
            (if user_collaborations user > 0
             then (let collaborationBonus = of_int (min 10 (user_collaborations user))
                   in (score1 + collaborationBonus,
                       details1(''collaborationBonus'' \<mapsto> collaborationBonus)))
             else (score1, details1))
      in \<lparr>score = min 100 score2, details = details2(''final'' \<mapsto> min 100 score2)\<rparr>)"

section \<open>Interest matching\<close>

definition userTypeBonus :: "Project \<Rightarrow> userType \<Rightarrow> rat" where
  "userTypeBonus project t =
     (case t of
        Founder \<Rightarrow> if project_openForCollaboration project then 15 else 0
      | Freelancer \<Rightarrow> if project_seekingTeam project then 15 else 0
      | Investor \<Rightarrow> if project_seekingInvestment project then 15 else 0
      | Collaborator \<Rightarrow> if project_openForCollaboration project then 15 else 0)"

definition calculateInterestScore :: "User \<Rightarrow> Project \<Rightarrow> Scored" where
  "calculateInterestScore user project =
     (let projectTags = project_tags project;
          userInterests = user_interests user;
          (score1, details1) =
            (if length projectTags > 0 \<and> length userInterests > 0
             then (let matchedTags = length (filter (\<lambda>tag. tag \<in> set userInterests) projectTags);
                       tagScore = of_nat matchedTags
                                    / of_nat (max (length projectTags) (length userInterests)) * 50
                   in (30 + tagScore, [''tagMatching'' \<mapsto> tagScore]))
             else (30, Map.empty));
          bonus = userTypeBonus project (user_userType user);
          score2 = score1 + bonus;
          details2 = details1(''userTypeBonus'' \<mapsto> bonus)
      in \<lparr>score = min 100 score2, details = details2(''final'' \<mapsto> min 100 score2)\<rparr>)"

section \<open>Engagement matching\<close>

definition calculateEngagementScore :: "User \<Rightarrow> Scored" where
  "calculateEngagementScore user =
     (let totalActivity = user_projectsCreated user + user_collaborations user
                            + user_investments user;
          activityBonus = of_int (min 40 (totalActivity * 5));
          levelBonus = of_int (min 10 ((user_level user - 1) * 2));
          score2 = 50 + activityBonus + levelBonus;
          details2 = [''activity'' \<mapsto> activityBonus, ''level'' \<mapsto> levelBonus]
      in \<lparr>score = min 100 score2, details = details2(''final'' \<mapsto> min 100 score2)\<rparr>)"

section \<open>The aggregator\<close>

definition matchTypeOf :: "userType \<Rightarrow> matchType" where
  "matchTypeOf t =
     (if t = Freelancer then Skill_based
      else if t = Investor then Investment_based
      else if t = Founder \<or> t = Collaborator then Stage_based
      else Interest_based)"

text \<open>The local \<^verbatim>\<open>totalScore\<close>: the weighted sum, before any rounding.\<close>

definition weightedTotal :: "Database option \<Rightarrow> User \<Rightarrow> Project \<Rightarrow> rat" where
  "weightedTotal db user project =
     score (calculateSkillScore user project db) * (4 / 10)
     + score (calculateInvestmentScore user project) * (25 / 100)
     + score (calculateStageScore user project) * (15 / 100)
     + score (calculateInterestScore user project) * (15 / 100)
     + score (calculateEngagementScore user) * (5 / 100)"

definition recommendationFor :: "rat \<Rightarrow> string" where
  "recommendationFor t =
     (if t \<ge> 80 then ''Excellent match - highly recommended''
      else if t \<ge> 60 then ''Good match - consider this opportunity''
      else if t \<ge> 40 then ''Fair match - could be worth exploring''
      else ''Limited match - may require additional consideration'')"

definition calculateMatchScore :: "Database option \<Rightarrow> User \<Rightarrow> Project \<Rightarrow> MatchScore" where
  "calculateMatchScore db user project =
     (let skillS = calculateSkillScore user project db;
          investmentS = calculateInvestmentScore user project;
          stageS = calculateStageScore user project;
          interestS = calculateInterestScore user project;
          engagementS = calculateEngagementScore user;
          total = weightedTotal db user project;
          allDetails =
            details skillS ++ details investmentS ++ details stageS ++ details interestS
              ++ details engagementS
              ++ [''skillScore'' \<mapsto> score skillS,
                  ''investmentScore'' \<mapsto> score investmentS,
                  ''stageScore'' \<mapsto> score stageS,
                  ''interestScore'' \<mapsto> score interestS,
                  ''engagementScore'' \<mapsto> score engagementS,
                  ''totalScore'' \<mapsto> of_int (Math_round total)]
      in \<lparr>userId = user_id user,
          projectId = project_id project,
          totalScore = Math_round total,
          skillScore = Math_round (score skillS),
          investmentScore = Math_round (score investmentS),
          stageScore = Math_round (score stageS),
          interestScore = Math_round (score interestS),
          engagementScore = Math_round (score engagementS),
          scoreDetails = allDetails,
          matchType = matchTypeOf (user_userType user),
          recommendation = recommendationFor total\<rparr>)"


section \<open>Batch matching\<close>

text \<open>The \<^verbatim>\<open>for\<close> loop over the fetched projects; \<open>matches\<close> is the array pushed to.\<close>

fun matchLoop ::
  "Database option \<Rightarrow> User \<Rightarrow> int \<Rightarrow> rat \<Rightarrow> Project list \<Rightarrow> MatchScore list \<Rightarrow> MatchScore list" where
  "matchLoop db user uid minScore [] matches = matches"
| "matchLoop db user uid minScore (project # ps) matches =
     (if project_ownerId project = uid then matchLoop db user uid minScore ps matches
      else
        (let m = calculateMatchScore db user project
         in if of_int (totalScore m) \<ge> minScore
            then matchLoop db user uid minScore ps (matches @ [m])
            else matchLoop db user uid minScore ps matches))"

text \<open>
  \<^verbatim>\<open>sort((a, b) => b.totalScore - a.totalScore)\<close>: the totals are integers, the
  comparator is consistent, and the sort is stable (ECMAScript 2019), so the result is the
  stable arrangement by descending total.
\<close>

definition sortByScore :: "MatchScore list \<Rightarrow> MatchScore list" where
  "sortByScore ms = sort_key (\<lambda>m. - totalScore m) ms"

text \<open>
  \<^verbatim>\<open>slice(0, end)\<close>: a negative end counts from the end of the array. A fractional
  end is truncated by \<^verbatim>\<open>slice\<close> first, so an integer end covers it.
\<close>

definition slice0 :: "'a list \<Rightarrow> int \<Rightarrow> 'a list" where
  "slice0 xs e =
     (let len = int (length xs);
          final = (if e < 0 then max (len + e) 0 else min e len)
      in take (nat final) xs)"

text \<open>The array \<open>matches\<close> when the loop ends, or nothing when the function returned before.\<close>

definition discovered :: "Database option \<Rightarrow> int \<Rightarrow> rat \<Rightarrow> MatchScore list" where
  "discovered db uid minScore =
     (case db of
        None \<Rightarrow> []
      | Some d \<Rightarrow>
          (case select_user d uid of
             None \<Rightarrow> []
           | Some userResult \<Rightarrow>
               (case userResult of
                  [] \<Rightarrow> []
                | user # _ \<Rightarrow>
                    (case select_activeProjects d of
                       None \<Rightarrow> []
                     | Some activeProjects \<Rightarrow> matchLoop db user uid minScore activeProjects []))))"

definition findTopMatches :: "Database option \<Rightarrow> int \<Rightarrow> int \<Rightarrow> rat \<Rightarrow> MatchScore list" where
  "findTopMatches db uid limit minScore =
     (case db of
        None \<Rightarrow> []
      | Some d \<Rightarrow>
          (case select_user d uid of
             None \<Rightarrow> []
           | Some userResult \<Rightarrow>
               (case userResult of
                  [] \<Rightarrow> []
                | user # _ \<Rightarrow>
                    (case select_activeProjects d of
                       None \<Rightarrow> []
                     | Some activeProjects \<Rightarrow>
                         slice0 (sortByScore (matchLoop db user uid minScore activeProjects []))
                           limit))))"

section \<open>The specification's formulas\<close>



section \<open>Concrete inputs\<close>

text \<open>
  A founder of level 3 who created three projects and recorded one skill, and a scaling
  project of somebody else that asks for that skill.
\<close>

definition alice :: User where
  "alice = \<lparr>user_id = 1, user_userType = Founder, user_level = 3, user_projectsCreated = 3,
     user_collaborations = 0, user_investments = 0, user_earnings = 0, user_interests = []\<rparr>"

definition shop :: Project where
  "shop = \<lparr>project_id = 10, project_ownerId = 2, project_stage = Scaling,
     project_status = Active, project_totalInvestmentNeeded = None,
     project_seekingInvestment = False, project_seekingTeam = True,
     project_openForCollaboration = True, project_tags = []\<rparr>"

definition shopDb :: Database where
  "shopDb = \<lparr>tbl_users = Some [alice], tbl_projects = Some [shop],
     tbl_userSkills = Some [\<lparr>us_userId = 1, us_skillId = 7, us_proficiency = Intermediate,
                              us_yearsOfExperience = 3\<rparr>],
     tbl_projectTeamRequirements =
       Some [\<lparr>tr_projectId = 10, tr_skillId = 7, tr_minProficiency = Intermediate,
              tr_minYearsExperience = 2, tr_filled = 0, tr_count = 1\<rparr>]\<rparr>"

text \<open>Scenario 1 of the specification: an advanced skill of five years against an
  intermediate requirement of two years.\<close>

definition scenario1Db :: Database where
  "scenario1Db = \<lparr>tbl_users = Some [alice], tbl_projects = Some [shop],
     tbl_userSkills = Some [\<lparr>us_userId = 1, us_skillId = 7, us_proficiency = Advanced,
                              us_yearsOfExperience = 5\<rparr>],
     tbl_projectTeamRequirements =
       Some [\<lparr>tr_projectId = 10, tr_skillId = 7, tr_minProficiency = Intermediate,
              tr_minYearsExperience = 2, tr_filled = 0, tr_count = 1\<rparr>]\<rparr>"





text \<open>A user record whose level is far below the default of 1.\<close>

definition carol :: User where
  "carol = \<lparr>user_id = 3, user_userType = Founder, user_level = - 200,
     user_projectsCreated = 0, user_collaborations = 0, user_investments = 0,
     user_earnings = 0, user_interests = []\<rparr>"

text \<open>Five candidate rows: totals 44, 47, 44 and 39 for alice, and a project of her own.\<close>

definition marketDb :: Database where
  "marketDb = shopDb\<lparr>tbl_projects :=
     Some [shop\<lparr>project_id := 11, project_stage := Prototype\<rparr>,
           shop,
           shop\<lparr>project_id := 13, project_stage := Prototype\<rparr>,
           shop\<lparr>project_id := 12\<rparr>,
           shop\<lparr>project_id := 14, project_ownerId := 1\<rparr>]\<rparr>"

definition draftsDb :: Database where
  "draftsDb = shopDb\<lparr>tbl_projects :=
     Some [shop\<lparr>project_status := Draft\<rparr>, shop\<lparr>project_seekingTeam := False\<rparr>]\<rparr>"

section \<open>Ranges of the scores\<close>

lemma Math_round_nonneg: "0 \<le> x \<Longrightarrow> 0 \<le> Math_round x"
  by (simp add: Math_round_def)

lemma Math_round_le: "x \<le> of_int n \<Longrightarrow> Math_round x \<le> n"
  unfolding Math_round_def by (simp add: floor_le_iff)

lemma Math_round_ge: "of_int n \<le> x \<Longrightarrow> n \<le> Math_round x"
  unfolding Math_round_def by (simp add: le_floor_iff)


lemma proficiencyPoints_nonneg: "0 \<le> proficiencyPoints a b"
  by (simp add: proficiencyPoints_def)

lemma experiencePoints_nonneg: "0 \<le> experiencePoints a b"
  by (simp add: experiencePoints_def)

lemma skillLoop_nonneg:
  "0 \<le> s \<Longrightarrow> skillLoop usd reqs (s, n, d) = (s', n', d') \<Longrightarrow> 0 \<le> s'"
proof (induction reqs arbitrary: s n d)
  case Nil
  then show ?case by simp
next
  case (Cons req reqs)
  show ?case
  proof (cases "find (\<lambda>x. us_skillId x = tr_skillId req) usd")
    case None
    with Cons show ?thesis by simp
  next
    case (Some userSkill)
    let ?pts = "proficiencyPoints (proficiencyLevels (us_proficiency userSkill))
                  (proficiencyLevels (tr_minProficiency req))
                + experiencePoints (us_yearsOfExperience userSkill) (tr_minYearsExperience req)"
    have "0 \<le> s + ?pts"
      using Cons.prems(1) proficiencyPoints_nonneg experiencePoints_nonneg
      by (simp add: add_nonneg_nonneg)
    moreover have "skillLoop usd reqs (s + ?pts, n + 1,
          d(''skill_'' @ String_of (tr_skillId req) \<mapsto> ?pts)) = (s', n', d')"
      using Cons.prems(2) Some by (simp add: Let_def)
    ultimately show ?thesis by (rule Cons.IH)
  qed
qed

lemma skill_score_range:
  "0 \<le> score (calculateSkillScore u p db) \<and> score (calculateSkillScore u p db) \<le> 100"
proof -
  have loop: "0 \<le> s'" if "skillLoop usd reqs (0, 0, Map.empty) = (s', n', d')"
    for usd reqs s' n' d'
    using skillLoop_nonneg [OF _ that] by simp
  show ?thesis
    unfolding calculateSkillScore_def
    by (auto simp: Let_def dest!: loop split: option.splits prod.splits
        intro!: add_nonneg_nonneg divide_nonneg_nonneg)
qed

lemma investment_score_range:
  "0 \<le> score (calculateInvestmentScore u p) \<and> score (calculateInvestmentScore u p) \<le> 100"
  unfolding calculateInvestmentScore_def
  by (auto simp: Let_def split: option.splits prod.splits)

lemma stageMatch_range: "5 \<le> stageMatch a b \<and> stageMatch a b \<le> 40"
  unfolding stageMatch_def by auto

lemma stage_score_range:
  "55 \<le> score (calculateStageScore u p) \<and> score (calculateStageScore u p) \<le> 100"
proof -
  let ?b = "stageMatch (Math_ceil (of_int (user_level u) / 2)) (stageHierarchy (project_stage p))"
  have "5 \<le> ?b" using stageMatch_range by blast
  then have "(5::rat) \<le> of_int ?b" by linarith
  then show ?thesis
    unfolding calculateStageScore_def by (auto simp: Let_def)
qed

lemma tagScore_range:
  assumes "0 < length ts"
  shows "0 \<le> (of_nat (length (filter P ts)) :: rat) / of_nat (max (length ts) n) * 50"
    and "(of_nat (length (filter P ts)) :: rat) / of_nat (max (length ts) n) * 50 \<le> 50"
proof -
  define q :: rat where "q = of_nat (length (filter P ts)) / of_nat (max (length ts) n)"
  have m: "length (filter P ts) \<le> max (length ts) n"
    using length_filter_le [of P ts] by linarith
  have "length ts \<le> max (length ts) n" by simp
  with assms have d: "0 < max (length ts) n" by linarith
  have "q \<le> 1"
    unfolding q_def using m d by (simp add: divide_le_eq_1)
  moreover have "0 \<le> q"
    unfolding q_def by simp
  ultimately have "0 \<le> q * 50" "q * 50 \<le> 50" by simp_all
  then show "0 \<le> (of_nat (length (filter P ts)) :: rat) / of_nat (max (length ts) n) * 50"
    and "(of_nat (length (filter P ts)) :: rat) / of_nat (max (length ts) n) * 50 \<le> 50"
    unfolding q_def by blast+
qed

lemma userTypeBonus_range: "0 \<le> userTypeBonus p t \<and> userTypeBonus p t \<le> 15"
  unfolding userTypeBonus_def by (cases t) auto

lemma interest_score_range:
  "30 \<le> score (calculateInterestScore u p) \<and> score (calculateInterestScore u p) \<le> 100"
proof -
  have b: "0 \<le> userTypeBonus p (user_userType u)" "userTypeBonus p (user_userType u) \<le> 15"
    using userTypeBonus_range by blast+
  show ?thesis
  proof (cases "0 < length (project_tags p) \<and> 0 < length (user_interests u)")
    case True
    then have t: "0 < length (project_tags p)" by simp
    show ?thesis
      using b tagScore_range [OF t, of "\<lambda>tag. tag \<in> set (user_interests u)" "length (user_interests u)"] True
      unfolding calculateInterestScore_def by (simp add: Let_def)
  next
    case False
    then show ?thesis
      using b unfolding calculateInterestScore_def by (auto simp add: Let_def)
  qed
qed

lemma engagement_score_le: "score (calculateEngagementScore u) \<le> 100"
  unfolding calculateEngagementScore_def by (simp add: Let_def)

lemma engagement_score_ge:
  assumes "1 \<le> user_level u"
    and "0 \<le> user_projectsCreated u + user_collaborations u + user_investments u"
  shows "50 \<le> score (calculateEngagementScore u)"
proof -
  have "(0::int) \<le> min 40 ((user_projectsCreated u + user_collaborations u + user_investments u) * 5)"
    using assms(2) by simp
  moreover have "(0::int) \<le> min 10 ((user_level u - 1) * 2)"
    using assms(1) by simp
  ultimately show ?thesis
    unfolding calculateEngagementScore_def by (simp add: Let_def)
qed

lemma weightedTotal_le: "weightedTotal db u p \<le> 100"
  using skill_score_range [of u p db] investment_score_range [of u p]
    stage_score_range [of u p] interest_score_range [of u p] engagement_score_le [of u]
  unfolding weightedTotal_def by linarith

lemma weightedTotal_ge:
  assumes "1 \<le> user_level u"
    and "0 \<le> user_projectsCreated u + user_collaborations u + user_investments u"
  shows "0 \<le> weightedTotal db u p"
  using skill_score_range [of u p db] investment_score_range [of u p]
    stage_score_range [of u p] interest_score_range [of u p] engagement_score_ge [OF assms]
  unfolding weightedTotal_def by linarith

section \<open>Rounding, tiers and keys\<close>


lemma String_of_7: "String_of 7 = ''7''"
  by (simp add: String_of_def digits.simps)





section \<open>Keys of the detail maps\<close>
















section \<open>The batch loop, the sort and the slice\<close>

lemma matchLoop_append:
  "matchLoop db u uid minScore ps acc = acc @ matchLoop db u uid minScore ps []"
proof (induction ps arbitrary: acc)
  case Nil
  then show ?case by simp
next
  case (Cons p ps)
  show ?case
  proof (cases "project_ownerId p \<noteq> uid
                \<and> minScore \<le> of_int (totalScore (calculateMatchScore db u p))")
    case True
    then show ?thesis
      using Cons.IH [of "acc @ [calculateMatchScore db u p]"]
        Cons.IH [of "[calculateMatchScore db u p]"]
      by (simp add: Let_def)
  next
    case False
    then show ?thesis
      using Cons.IH [of acc] by (auto simp: Let_def)
  qed
qed

lemma matchLoop_Cons:
  "matchLoop db u uid minScore (p # ps) [] =
     (if project_ownerId p \<noteq> uid
         \<and> minScore \<le> of_int (totalScore (calculateMatchScore db u p))
      then calculateMatchScore db u p # matchLoop db u uid minScore ps []
      else matchLoop db u uid minScore ps [])"
  using matchLoop_append [of db u uid minScore ps "[calculateMatchScore db u p]"]
  by (simp add: Let_def)

lemma matchLoop_eq_map_filter:
  "matchLoop db u uid minScore ps [] =
     filter (\<lambda>m. minScore \<le> of_int (totalScore m))
       (map (calculateMatchScore db u) (filter (\<lambda>p. project_ownerId p \<noteq> uid) ps))"
  by (induction ps) (simp_all add: matchLoop_Cons del: matchLoop.simps(2))

lemma length_matchLoop: "length (matchLoop db u uid minScore ps []) \<le> length ps"
proof -
  have "length (matchLoop db u uid minScore ps [])
          \<le> length (map (calculateMatchScore db u) (filter (\<lambda>p. project_ownerId p \<noteq> uid) ps))"
    unfolding matchLoop_eq_map_filter by (rule length_filter_le)
  also have "\<dots> \<le> length ps" by simp
  finally show ?thesis .
qed

lemma projectId_calculateMatchScore [simp]:
  "projectId (calculateMatchScore db u p) = project_id p"
  by (simp add: calculateMatchScore_def Let_def)

lemma set_matchLoop:
  "m \<in> set (matchLoop db u uid minScore ps []) \<Longrightarrow>
     \<exists>p \<in> set ps. m = calculateMatchScore db u p \<and> project_ownerId p \<noteq> uid
       \<and> minScore \<le> of_int (totalScore m)"
  unfolding matchLoop_eq_map_filter by auto

lemma length_slice0: "length (slice0 xs e) \<le> length xs"
  by (simp add: slice0_def Let_def)

lemma set_slice0: "set (slice0 xs e) \<subseteq> set xs"
  by (simp add: slice0_def Let_def set_take_subset)

lemma slice0_Nil [simp]: "slice0 [] e = []"
  by (simp add: slice0_def Let_def)

lemma sortByScore_Nil [simp]: "sortByScore [] = []"
  by (simp add: sortByScore_def)

lemma length_sortByScore [simp]: "length (sortByScore ms) = length ms"
  by (simp add: sortByScore_def)

lemma set_sortByScore [simp]: "set (sortByScore ms) = set ms"
  by (simp add: sortByScore_def)



lemma findTopMatches_eq:
  "findTopMatches db uid limit minScore = slice0 (sortByScore (discovered db uid minScore)) limit"
  by (simp add: findTopMatches_def discovered_def split: option.splits list.splits)

lemma length_discovered: "length (discovered db uid minScore) \<le> 100"
proof -
  have "length (matchLoop db u uid minScore (take 100 xs) []) \<le> 100" for u and xs :: "Project list"
    using length_matchLoop [of db u uid minScore "take 100 xs"] by simp
  then show ?thesis
    by (auto simp: discovered_def select_activeProjects_def split: option.splits list.splits)
qed





lemma select_projects_irrelevant:
  "select_userSkills (d\<lparr>tbl_projects := X\<rparr>) uid = select_userSkills d uid"
  "select_teamReqs (d\<lparr>tbl_projects := X\<rparr>) pid = select_teamReqs d pid"
  "select_user (d\<lparr>tbl_projects := X\<rparr>) uid = select_user d uid"
  by (simp_all add: select_userSkills_def select_teamReqs_def select_user_def)

lemma calculateSkillScore_projects_irrelevant:
  "calculateSkillScore u p (Some (d\<lparr>tbl_projects := X\<rparr>)) = calculateSkillScore u p (Some d)"
  unfolding calculateSkillScore_def option.case select_projects_irrelevant by (rule refl)

lemma discovered_SomeD:
  assumes "m \<in> set (discovered db uid minScore)"
  shows "\<exists>d0 u ps. db = Some d0 \<and> select_activeProjects d0 = Some ps
           \<and> m \<in> set (matchLoop db u uid minScore ps [])"
proof (cases db)
  case None
  with assms show ?thesis by (simp add: discovered_def)
next
  case (Some d0)
  show ?thesis
  proof (cases "select_user d0 uid")
    case None
    with assms Some show ?thesis by (simp add: discovered_def)
  next
    case users: (Some userResult)
    show ?thesis
    proof (cases userResult)
      case Nil
      with assms Some users show ?thesis by (simp add: discovered_def)
    next
      case (Cons u rest)
      show ?thesis
      proof (cases "select_activeProjects d0")
        case None
        with assms Some users Cons show ?thesis by (simp add: discovered_def)
      next
        case projects: (Some ps)
        with assms Some users Cons
        have "m \<in> set (matchLoop db u uid minScore ps [])"
          by (simp add: discovered_def)
        with Some projects show ?thesis by blast
      qed
    qed
  qed
qed

lemma calculateMatchScore_projects_irrelevant:
  "calculateMatchScore (Some (d\<lparr>tbl_projects := X\<rparr>)) u p = calculateMatchScore (Some d) u p"
  by (simp add: calculateMatchScore_def weightedTotal_def calculateSkillScore_projects_irrelevant)

lemma matchLoop_projects_irrelevant:
  "matchLoop (Some (d\<lparr>tbl_projects := X\<rparr>)) u uid minScore ps []
     = matchLoop (Some d) u uid minScore ps []"
proof -
  have "calculateMatchScore (Some (d\<lparr>tbl_projects := X\<rparr>)) u = calculateMatchScore (Some d) u"
    by (rule ext) (rule calculateMatchScore_projects_irrelevant)
  then show ?thesis
    by (simp add: matchLoop_eq_map_filter)
qed

lemma take_filter_idem:
  "take n (filter P (take n (filter P xs))) = take n (filter P xs)"
proof -
  have "filter P (take n (filter P xs)) = take n (filter P xs)"
    by (rule filter_True) (auto dest: in_set_takeD)
  then show ?thesis by simp
qed

section \<open>Further facts on the detail maps and the reported scores\<close>






lemma reported_scores_le_100:
  "skillScore (calculateMatchScore db u p) \<le> 100
   \<and> investmentScore (calculateMatchScore db u p) \<le> 100
   \<and> stageScore (calculateMatchScore db u p) \<le> 100
   \<and> interestScore (calculateMatchScore db u p) \<le> 100
   \<and> engagementScore (calculateMatchScore db u p) \<le> 100
   \<and> totalScore (calculateMatchScore db u p) \<le> 100"
  using skill_score_range [of u p db] investment_score_range [of u p]
    stage_score_range [of u p] interest_score_range [of u p] engagement_score_le [of u]
    weightedTotal_le [of db u p]
  by (simp add: calculateMatchScore_def Let_def Math_round_le)

lemma reported_scores_nonneg:
  assumes "1 \<le> user_level u"
    and "0 \<le> user_projectsCreated u + user_collaborations u + user_investments u"
  shows "0 \<le> skillScore (calculateMatchScore db u p)
   \<and> 0 \<le> investmentScore (calculateMatchScore db u p)
   \<and> 0 \<le> stageScore (calculateMatchScore db u p)
   \<and> 0 \<le> interestScore (calculateMatchScore db u p)
   \<and> 0 \<le> engagementScore (calculateMatchScore db u p)
   \<and> 0 \<le> totalScore (calculateMatchScore db u p)"
proof -
  have "0 \<le> score (calculateStageScore u p)" "0 \<le> score (calculateInterestScore u p)"
    "0 \<le> score (calculateEngagementScore u)"
    using stage_score_range [of u p] interest_score_range [of u p]
      engagement_score_ge [OF assms] by linarith+
  then show ?thesis
    using skill_score_range [of u p db] investment_score_range [of u p]
      weightedTotal_ge [OF assms, of db p]
    by (simp add: calculateMatchScore_def Let_def Math_round_nonneg)
qed

section \<open>The total score\<close>




section \<open>The range of the reported scores\<close>

text \<open>
  C2. Every sub-score and the total are meant to lie between 0 and 100. The calculators
  cut their results at 100 only; the level bonus of the engagement calculator,
  min(10, (level - 1) * 2), has no lower bound. For a user record of level -200 the
  engagement sub-score is -352 and the total is -3: the engine leaves the range here.
\<close>

theorem C2_negative_scores_below_level_1:
  "score (calculateEngagementScore carol) = - 352
   \<and> engagementScore (calculateMatchScore None carol shop) = - 352
   \<and> weightedTotal None carol shop = - (13 / 5)
   \<and> totalScore (calculateMatchScore None carol shop) = - 3"
  by code_simp

section \<open>The skill score\<close>

text \<open>
  C3, as amended. A user whose only skill is number 7, advanced, with five years, against
  a project whose only requirement is skill 7, intermediate, two years: the proficiency
  component is 40 (at least 30), the experience component is 31.5 (at least 30), the
  coverage is 100 percent and earns the bonus of 10, and the skill sub-score is
  71.5 + 10 = 81.5, reported as 82. It does not reach the clamp at 100. The headcount of
  the requirement is not read.
\<close>

theorem C3_scenario1_skill_score:
  assumes "select_userSkills d (user_id user) = Some [s]"
    and "us_skillId s = 7" and "us_proficiency s = Advanced" and "us_yearsOfExperience s = 5"
    and "select_teamReqs d (project_id project) = Some [r]"
    and "tr_skillId r = 7" and "tr_minProficiency r = Intermediate"
    and "tr_minYearsExperience r = 2"
  shows "proficiencyPoints (proficiencyLevels Advanced) (proficiencyLevels Intermediate) = 40
    \<and> 30 \<le> proficiencyPoints (proficiencyLevels Advanced) (proficiencyLevels Intermediate)
    \<and> experiencePoints 5 2 = 63 / 2
    \<and> 30 \<le> experiencePoints 5 2
    \<and> details (calculateSkillScore user project (Some d)) ''skill_7'' = Some (143 / 2)
    \<and> details (calculateSkillScore user project (Some d)) ''coverage'' = Some 100
    \<and> score (calculateSkillScore user project (Some d)) = 163 / 2
    \<and> skillScore (calculateMatchScore (Some d) user project) = 82"
proof -
  have pp: "proficiencyPoints (proficiencyLevels Advanced) (proficiencyLevels Intermediate) = 40"
    by (simp add: proficiencyPoints_def)
  have ep: "experiencePoints 5 2 = 63 / 2"
    by (simp add: experiencePoints_def)
  have loop: "skillLoop [s] [r] (0, 0, Map.empty) = (143 / 2, 1, [''skill_7'' \<mapsto> 143 / 2])"
    using assms(2-4,6-8)
    by (simp add: Let_def String_of_7 proficiencyPoints_def experiencePoints_def)
  have res: "calculateSkillScore user project (Some d) =
     \<lparr>score = 163 / 2,
      details = [''skill_7'' \<mapsto> 143 / 2, ''coverage'' \<mapsto> 100, ''final'' \<mapsto> 163 / 2]\<rparr>"
    unfolding calculateSkillScore_def using assms(1,5) loop by (simp add: Let_def)
  have "Math_round (163 / 2) = 82"
    by (simp add: Math_round_def)
  then have "skillScore (calculateMatchScore (Some d) user project) = 82"
    by (simp add: calculateMatchScore_def Let_def res)
  then show ?thesis
    using pp ep res by simp
qed

text \<open>Scenario 1 gives 81.5, not 100.\<close>

theorem C3_scenario1_counterexample:
  "score (calculateSkillScore alice shop (Some scenario1Db)) = 163 / 2
   \<and> score (calculateSkillScore alice shop (Some scenario1Db)) \<noteq> 100
   \<and> skillScore (calculateMatchScore (Some scenario1Db) alice shop) = 82"
  by code_simp

theorem C3_scenario1_witness:
  "select_userSkills scenario1Db (user_id alice)
     = Some [\<lparr>us_userId = 1, us_skillId = 7, us_proficiency = Advanced, us_yearsOfExperience = 5\<rparr>]
   \<and> select_teamReqs scenario1Db (project_id shop)
     = Some [\<lparr>tr_projectId = 10, tr_skillId = 7, tr_minProficiency = Intermediate,
              tr_minYearsExperience = 2, tr_filled = 0, tr_count = 1\<rparr>]
   \<and> score (calculateSkillScore alice shop (Some scenario1Db)) = 163 / 2
   \<and> skillScore (calculateMatchScore (Some scenario1Db) alice shop) = 82"
proof -
  have us: "select_userSkills scenario1Db (user_id alice)
     = Some [\<lparr>us_userId = 1, us_skillId = 7, us_proficiency = Advanced, us_yearsOfExperience = 5\<rparr>]"
    by (simp add: select_userSkills_def scenario1Db_def alice_def)
  have rs: "select_teamReqs scenario1Db (project_id shop)
     = Some [\<lparr>tr_projectId = 10, tr_skillId = 7, tr_minProficiency = Intermediate,
              tr_minYearsExperience = 2, tr_filled = 0, tr_count = 1\<rparr>]"
    by (simp add: select_teamReqs_def scenario1Db_def shop_def)
  show ?thesis
    using C3_scenario1_skill_score [OF us _ _ _ rs] us rs by simp
qed




section \<open>The recommendation\<close>




section \<open>The merged detail map\<close>




section \<open>The recommendation finder\<close>




text \<open>
  C8. \<open>findTopMatches\<close> always returns a list. Without a database handle, for a user
  identifier that no row of the users table carries, when no fetched project is an active,
  team-seeking project of somebody else, and when one of its two queries rejects, the list
  is empty.
\<close>

theorem C8_empty_result_for_missing_data:
  "findTopMatches None uid limit minScore = []
   \<and> (tbl_users d = Some us \<and> (\<forall>u \<in> set us. user_id u \<noteq> uid)
        \<longrightarrow> findTopMatches (Some d) uid limit minScore = [])
   \<and> (tbl_projects d = Some ps
        \<and> (\<forall>p \<in> set ps. \<not> (project_status p = Active \<and> project_seekingTeam p
                                \<and> project_ownerId p \<noteq> uid))
        \<longrightarrow> findTopMatches (Some d) uid limit minScore = [])
   \<and> (tbl_users d = None \<or> tbl_projects d = None
        \<longrightarrow> findTopMatches (Some d) uid limit minScore = [])"
proof -
  have none: "findTopMatches None uid limit minScore = []"
    by (simp add: findTopMatches_def)
  have unknown: "findTopMatches (Some d) uid limit minScore = []"
    if "tbl_users d = Some us \<and> (\<forall>u \<in> set us. user_id u \<noteq> uid)"
  proof -
    have "filter (\<lambda>u. user_id u = uid) us = []"
      using that by (simp add: filter_empty_conv)
    then have "select_user d uid = Some []"
      using that by (simp add: select_user_def)
    then show ?thesis
      by (simp add: findTopMatches_def)
  qed
  have nocand: "findTopMatches (Some d) uid limit minScore = []"
    if h: "tbl_projects d = Some ps
        \<and> (\<forall>p \<in> set ps. \<not> (project_status p = Active \<and> project_seekingTeam p
                                \<and> project_ownerId p \<noteq> uid))"
  proof -
    let ?c = "take 100 (filter (\<lambda>p. project_status p = Active \<and> project_seekingTeam p) ps)"
    have sel: "select_activeProjects d = Some ?c"
      using h by (simp add: select_activeProjects_def)
    have "filter (\<lambda>p. project_ownerId p \<noteq> uid) ?c = []"
      using h by (auto simp: filter_empty_conv dest!: in_set_takeD)
    then have "matchLoop (Some d) u uid minScore ?c [] = []" for u
      by (simp add: matchLoop_eq_map_filter)
    then show ?thesis
      using sel by (simp add: findTopMatches_def split: option.splits list.splits)
  qed
  have rejected: "findTopMatches (Some d) uid limit minScore = []"
    if "tbl_users d = None \<or> tbl_projects d = None"
    using that
    by (auto simp: findTopMatches_def select_user_def select_activeProjects_def
        split: option.splits list.splits)
  show ?thesis
    using none unknown nocand rejected by (intro conjI impI)
qed

theorem C8_empty_result_witness:
  "tbl_users marketDb = Some [alice]
   \<and> user_id alice \<noteq> 99
   \<and> findTopMatches (Some marketDb) 99 10 40 = []
   \<and> tbl_projects draftsDb
       = Some [shop\<lparr>project_status := Draft\<rparr>, shop\<lparr>project_seekingTeam := False\<rparr>]
   \<and> findTopMatches (Some draftsDb) 1 10 40 = []
   \<and> tbl_users (shopDb\<lparr>tbl_users := None\<rparr>) = None
   \<and> findTopMatches (Some (shopDb\<lparr>tbl_users := None\<rparr>)) 1 10 40 = []"
proof -
  have u: "tbl_users marketDb = Some [alice]" "user_id alice \<noteq> 99"
    by (simp_all add: marketDb_def shopDb_def alice_def)
  have p: "tbl_projects draftsDb
       = Some [shop\<lparr>project_status := Draft\<rparr>, shop\<lparr>project_seekingTeam := False\<rparr>]"
    by (simp add: draftsDb_def)
  have n: "tbl_users (shopDb\<lparr>tbl_users := None\<rparr>) = None"
    by simp
  note t1 = C8_empty_result_for_missing_data [of 99 10 40 marketDb "[alice]"]
  note t2 = C8_empty_result_for_missing_data [of 1 10 40 draftsDb _
      "[shop\<lparr>project_status := Draft\<rparr>, shop\<lparr>project_seekingTeam := False\<rparr>]"]
  note t3 = C8_empty_result_for_missing_data [of 1 10 40 "shopDb\<lparr>tbl_users := None\<rparr>"]
  have r1: "findTopMatches (Some marketDb) 99 10 40 = []"
    using t1 u by simp
  have r2: "findTopMatches (Some draftsDb) 1 10 40 = []"
    using t2 p by simp
  have r3: "findTopMatches (Some (shopDb\<lparr>tbl_users := None\<rparr>)) 1 10 40 = []"
    using t3 n by simp
  show ?thesis
    by (intro conjI u p n r1 r2 r3)
qed

text \<open>
  C9. The query for candidates ends in \<^verbatim>\<open>limit(100)\<close>. Whatever the limit and the
  threshold, the result has at most 100 entries; each entry is the match score of one of
  the first 100 active, team-seeking rows of the projects table; and the result is the
  same as for a projects table that holds those first 100 rows only.
\<close>

theorem C9_at_most_100_candidates:
  "length (findTopMatches db uid limit minScore) \<le> 100
   \<and> (\<forall>m \<in> set (findTopMatches db uid limit minScore).
        \<exists>d rows p. db = Some d \<and> tbl_projects d = Some rows
          \<and> p \<in> set (take 100 (filter (\<lambda>p. project_status p = Active \<and> project_seekingTeam p) rows))
          \<and> projectId m = project_id p)
   \<and> (tbl_projects d = Some rows \<longrightarrow>
        findTopMatches (Some d) uid limit minScore =
        findTopMatches
          (Some (d\<lparr>tbl_projects :=
             Some (take 100 (filter (\<lambda>p. project_status p = Active \<and> project_seekingTeam p) rows))\<rparr>))
          uid limit minScore)"
proof -
  let ?c = "\<lambda>p. project_status p = Active \<and> project_seekingTeam p"
  have len: "length (findTopMatches db uid limit minScore) \<le> 100"
    unfolding findTopMatches_eq
    using length_slice0 [of "sortByScore (discovered db uid minScore)" limit]
      length_discovered [of db uid minScore]
    by simp
  have mem: "\<exists>d rows p. db = Some d \<and> tbl_projects d = Some rows
          \<and> p \<in> set (take 100 (filter ?c rows)) \<and> projectId m = project_id p"
    if "m \<in> set (findTopMatches db uid limit minScore)" for m
  proof -
    have "m \<in> set (discovered db uid minScore)"
      using that set_slice0 [of "sortByScore (discovered db uid minScore)" limit]
      unfolding findTopMatches_eq by auto
    then obtain d0 u ps where d0: "db = Some d0" "select_activeProjects d0 = Some ps"
      and m: "m \<in> set (matchLoop db u uid minScore ps [])"
      using discovered_SomeD by blast
    from d0(2) obtain rows where rows: "tbl_projects d0 = Some rows"
      "ps = take 100 (filter ?c rows)"
      by (auto simp: select_activeProjects_def)
    from set_matchLoop [OF m] obtain p where "p \<in> set ps" "m = calculateMatchScore db u p"
      by blast
    then have "p \<in> set (take 100 (filter ?c rows)) \<and> projectId m = project_id p"
      using rows(2) by simp
    then show ?thesis
      using d0(1) rows(1) by blast
  qed
  have same: "findTopMatches (Some d) uid limit minScore =
        findTopMatches (Some (d\<lparr>tbl_projects := Some (take 100 (filter ?c rows))\<rparr>)) uid limit minScore"
    if "tbl_projects d = Some rows"
    using that
    by (simp add: findTopMatches_def select_projects_irrelevant select_activeProjects_def
        take_filter_idem matchLoop_projects_irrelevant
        split: option.splits list.splits)
  show ?thesis
    using len mem same by (intro conjI ballI impI)
qed

theorem C9_at_most_100_witness:
  "map projectId (findTopMatches (Some marketDb) 1 10 0) = [10, 11, 13, 12]
   \<and> length (findTopMatches (Some marketDb) 1 10 0) \<le> 100"
proof -
  have "map projectId (findTopMatches (Some marketDb) 1 10 0) = [10, 11, 13, 12]"
    by code_simp
  then show ?thesis
    using C9_at_most_100_candidates [of "Some marketDb" 1 10 0, THEN conjunct1] by simp
qed

section \<open>The stage score\<close>

text \<open>
  C10. For every user and every project the stage sub-score lies between 55 and 100: the
  stage-match bonus added to the base of 50 is at least 5 (and at most 40), the
  collaboration bonus is never negative, and the sum is cut at 100. The same bounds hold
  for the rounded stage score that the match score reports.
\<close>

theorem C10_stage_score_between_55_and_100:
  "5 \<le> stageMatch userLevel projectStageLevel
   \<and> 55 \<le> score (calculateStageScore user project)
   \<and> score (calculateStageScore user project) \<le> 100
   \<and> 55 \<le> stageScore (calculateMatchScore db user project)
   \<and> stageScore (calculateMatchScore db user project) \<le> 100"
proof -
  have r: "55 \<le> score (calculateStageScore user project)"
    "score (calculateStageScore user project) \<le> 100"
    using stage_score_range [of user project] by blast+
  have "55 \<le> Math_round (score (calculateStageScore user project))"
    using r(1) by (intro Math_round_ge) simp
  moreover have "Math_round (score (calculateStageScore user project)) \<le> 100"
    using r(2) by (intro Math_round_le) simp
  ultimately show ?thesis
    using r stageMatch_range [of userLevel projectStageLevel]
    by (simp add: calculateMatchScore_def Let_def)
qed

theorem C10_stage_score_witness:
  "score (calculateStageScore alice shop) = 60
   \<and> 55 \<le> score (calculateStageScore alice shop)
   \<and> score (calculateStageScore alice shop) \<le> 100"
proof -
  have "score (calculateStageScore alice shop) = 60"
    by code_simp
  then show ?thesis
    using C10_stage_score_between_55_and_100 [of 2 4 alice shop None] by simp
qed

end
